theory Spec2Isabelle
  imports Complex_Main "HOL-Library.Multiset"
begin

section \<open>Data model (app/models.py)\<close>

text \<open>
  Timestamps are Python \<open>datetime\<close> values, modelled as the number of microseconds since
  the epoch. Measurements are Python floats / SQL \<open>Float\<close> columns; they are modelled as
  reals, so arithmetic is exact (no rounding error, no NaN, no infinities).
\<close>

type_synonym datetime = int

definition timedelta_hours :: "int \<Rightarrow> int" where
  "timedelta_hours h = h * 3600 * 1000000"

text \<open>
  \<open>class WeatherStationData(Base)\<close>: one row of the table \<open>weather_station_data\<close>.
  The primary key column \<open>id\<close> is called \<open>id_col\<close> here.
\<close>

record WeatherStationData =
  id_col :: int
  station_time :: datetime
  source :: string
  temperature :: "real option"
  precipitation :: "real option"
  real_precipitation :: "real option"
  presure :: "real option"
  wind_speed :: "real option"
  wind_direction :: "real option"
  humidity :: "real option"
  radiation :: "real option"
  eto :: "real option"
  compass_rose :: "string option"
  real_eto :: "real option"
  radiation_uv :: "real option"
  processed :: int
  created_at :: datetime
  updated_at :: "datetime option"

text \<open>
  \<open>class DataReceived(BaseModel)\<close>: a validated request body. Fields whose name is also a
  column name carry the suffix \<open>_in\<close>.
\<close>

record DataReceived =
  stationTime :: datetime
  temperature_in :: "real option"
  precipitation_in :: "real option"
  realPrecipitation :: "real option"
  presure_in :: "real option"
  windSpeed :: "real option"
  windDirection :: "real option"
  humidity_in :: "real option"
  radiation_in :: "real option"
  eto_in :: "real option"
  compassRose :: "string option"
  realETO :: "real option"
  radiationUV :: "real option"
  source_in :: string

text \<open>\<open>class DataResponse(BaseModel)\<close>, with the field \<open>id\<close> called \<open>id_resp\<close>.\<close>

datatype message =
    Datos_recibidos_y_guardados
  | Dato_marcado_como_procesado

record DataResponse =
  success :: bool
  message :: message
  id_resp :: "int option"

section \<open>Errors\<close>

text \<open>Python exceptions that the handlers can meet, each with what it names.\<close>

datatype py_error =
    AttributeError string string
  | TypeError string string
  | IntegrityError string
  | DataError string
  | OperationalError

text \<open>
  What the caller receives instead of a result: the framework's rejection of a request that
  does not validate (status 422) with the offending fields, or an \<open>HTTPException\<close> with its
  status code and detail.
\<close>

datatype detail =
    Error_al_guardar_datos py_error
  | No_se_encontraron_datos_con_ID int
  | No_hay_datos_suficientes string int
  | No_hay_suficientes_datos_para_prediccion string int
  | Dato_no_encontrado

datatype http_error =
    RequestValidationError "string list"
  | HTTPException int detail

section \<open>The session and the table\<close>

text \<open>
  A Python value as an attribute of an object can hold it, and an object under construction
  as the dictionary of the attributes set so far.
\<close>

datatype pyval = PyNone | PyFloat real | PyStr string | PyDatetime datetime

type_synonym pyobj = "(string \<times> pyval) list"

text \<open>
  The session \<open>db\<close>: the committed rows of the table in insertion order, the next value of
  the autoincrement sequence, and the objects added but not yet committed.
\<close>

record Session =
  rows :: "WeatherStationData list"
  next_id :: int
  pending :: "pyobj list"

section \<open>Python and SQL primitives\<close>

text \<open>Truth value of an \<open>Optional[float]\<close>: \<open>None\<close> and \<open>0.0\<close> are false.\<close>

definition truthy_float :: "real option \<Rightarrow> bool" where
  "truthy_float v = (case v of None \<Rightarrow> False | Some x \<Rightarrow> x \<noteq> 0)"

text \<open>Truth value of an \<open>Optional[str]\<close>: \<open>None\<close> and the empty string are false.\<close>

definition truthy_str :: "string option \<Rightarrow> bool" where
  "truthy_str v = (case v of None \<Rightarrow> False | Some s \<Rightarrow> s \<noteq> [])"

text \<open>Truth value of an \<open>Optional[datetime]\<close>: every datetime is true.\<close>

definition truthy_datetime :: "datetime option \<Rightarrow> bool" where
  "truthy_datetime v = (case v of None \<Rightarrow> False | Some t \<Rightarrow> True)"

text \<open>
  \<open>round(x, 2)\<close>: to the nearest multiple of 1/100, a tie going to the even neighbour.
\<close>

definition round2 :: "real \<Rightarrow> real" where
  "round2 x =
     (let s = x * 100; f = \<lfloor>s\<rfloor>; d = s - of_int f
      in of_int (if d < 1 / 2 then f
                 else if 1 / 2 < d then f + 1
                 else if even f then f else f + 1) / 100)"

text \<open>The values of a nullable column that are not NULL, in row order.\<close>

definition non_null :: "('r \<Rightarrow> 'a option) \<Rightarrow> 'r list \<Rightarrow> 'a list" where
  "non_null col rs = List.map_filter col rs"

text \<open>SQL \<open>avg\<close>, \<open>max\<close>, \<open>min\<close>: over the values that are not NULL, and NULL when there are none.\<close>

definition sql_avg :: "real list \<Rightarrow> real option" where
  "sql_avg vs = (if vs = [] then None else Some (sum_list vs / real (length vs)))"

definition sql_max :: "real list \<Rightarrow> real option" where
  "sql_max vs = (case vs of [] \<Rightarrow> None | v # rest \<Rightarrow> Some (fold max rest v))"

definition sql_min :: "real list \<Rightarrow> real option" where
  "sql_min vs = (case vs of [] \<Rightarrow> None | v # rest \<Rightarrow> Some (fold min rest v))"

section \<open>Rain probability (get\_rain\_probability)\<close>

record debug_info =
  average_humidity :: real
  pressure_change :: real
  total_precipitation :: real

record rain_report =
  rain_source :: string
  rain_period_hours :: int
  rain_probability :: int
  records_analyzed :: nat
  rain_debug_info :: debug_info

text \<open>
  The rows of one source at or after the threshold, by \<open>station_time\<close> ascending. The order
  among rows of equal \<open>station_time\<close> is the table's.
\<close>

definition recent_rows :: "string \<Rightarrow> datetime \<Rightarrow> Session \<Rightarrow> WeatherStationData list" where
  "recent_rows source_name time_threshold db =
     sort_key station_time
       (filter (\<lambda>d. source d = source_name \<and> time_threshold \<le> station_time d) (rows db))"

text \<open>The body of the handler after the guard on the number of rows.\<close>

definition rain_estimate :: "string \<Rightarrow> int \<Rightarrow> WeatherStationData list \<Rightarrow> rain_report" where
  "rain_estimate source_name hours recent_data =
     (let probability0 = (0::int);
          pressure_change0 = (0::real);
          humidities = non_null humidity recent_data;
          avg_humidity = (if humidities \<noteq> [] then sum_list humidities / real (length humidities)
                          else 0);
          probability1 = (if 90 < avg_humidity then probability0 + 30
                          else if 75 < avg_humidity then probability0 + 15
                          else probability0);
          first_pressure = presure (hd recent_data);
          last_pressure = presure (last recent_data);
          (pressure_change1, probability2) =
            (case (first_pressure, last_pressure) of
               (Some fp, Some lp) \<Rightarrow>
                 (let pc = lp - fp
                  in (pc, if pc < - 1.5 then probability1 + 35
                          else if pc < - 0.5 then probability1 + 15
                          else probability1))
             | _ \<Rightarrow> (pressure_change0, probability1));
          total = sum_list (non_null real_precipitation recent_data);
          probability3 = (if 0.1 < total then probability2 + 25 else probability2);
          final_probability = min probability3 100
      in \<lparr> rain_source = source_name,
           rain_period_hours = hours,
           rain_probability = final_probability,
           records_analyzed = length recent_data,
           rain_debug_info = \<lparr> average_humidity = round2 avg_humidity,
                               pressure_change = round2 pressure_change1,
                               total_precipitation = round2 total \<rparr> \<rparr>)"

definition get_rain_probability ::
  "string \<Rightarrow> int \<Rightarrow> datetime \<Rightarrow> Session \<Rightarrow> http_error + rain_report" where
  "get_rain_probability source_name hours utcnow db =
     (if hours < 1 \<or> 48 < hours then Inl (RequestValidationError [''hours''])
      else
        (let time_threshold = utcnow - timedelta_hours hours;
             recent_data = recent_rows source_name time_threshold db
         in if length recent_data < 2
            then Inl (HTTPException 404
                        (No_hay_suficientes_datos_para_prediccion source_name hours))
            else Inr (rain_estimate source_name hours recent_data)))"

section \<open>Statistics (get\_statistics\_by\_source)\<close>

text \<open>The single row that the aggregate query returns.\<close>

record stats_row =
  avg_temp :: "real option"
  max_temp :: "real option"
  min_temp :: "real option"
  avg_humidity :: "real option"
  avg_wind_speed :: "real option"
  max_wind_speed :: "real option"
  total_records :: nat

text \<open>The returned dictionary, its nested entries flattened into one record.\<close>

record stats_report =
  stats_source :: string
  stats_period_hours :: int
  temperature_average :: "real option"
  temperature_maximum :: "real option"
  temperature_minimum :: "real option"
  humidity_average :: "real option"
  wind_speed_average :: "real option"
  wind_speed_maximum :: "real option"
  report_total_records :: nat

text \<open>The rows of one source at or after the threshold (the query's \<open>filter\<close>).\<close>

definition window_rows :: "string \<Rightarrow> datetime \<Rightarrow> Session \<Rightarrow> WeatherStationData list" where
  "window_rows source_name time_threshold db =
     filter (\<lambda>d. source d = source_name \<and> time_threshold \<le> station_time d) (rows db)"

definition aggregate_query :: "WeatherStationData list \<Rightarrow> stats_row" where
  "aggregate_query w =
     \<lparr> avg_temp = sql_avg (non_null temperature w),
       max_temp = sql_max (non_null temperature w),
       min_temp = sql_min (non_null temperature w),
       avg_humidity = sql_avg (non_null humidity w),
       avg_wind_speed = sql_avg (non_null wind_speed w),
       max_wind_speed = sql_max (non_null wind_speed w),
       total_records = length w \<rparr>"

text \<open>\<open>round(v, 2) if v else None\<close>\<close>

definition round_if_truthy :: "real option \<Rightarrow> real option" where
  "round_if_truthy v = (if truthy_float v then map_option round2 v else None)"

definition get_statistics_by_source ::
  "string \<Rightarrow> int \<Rightarrow> datetime \<Rightarrow> Session \<Rightarrow> http_error + stats_report" where
  "get_statistics_by_source source_name hours utcnow db =
     (if hours < 1 \<or> 720 < hours then Inl (RequestValidationError [''hours''])
      else
        (let time_threshold = utcnow - timedelta_hours hours;
             stats = aggregate_query (window_rows source_name time_threshold db)
         in if total_records stats = 0
            then Inl (HTTPException 404 (No_hay_datos_suficientes source_name hours))
            else Inr \<lparr> stats_source = source_name,
                       stats_period_hours = hours,
                       temperature_average = round_if_truthy (avg_temp stats),
                       temperature_maximum = round_if_truthy (max_temp stats),
                       temperature_minimum = round_if_truthy (min_temp stats),
                       humidity_average = round_if_truthy (avg_humidity stats),
                       wind_speed_average = round_if_truthy (avg_wind_speed stats),
                       wind_speed_maximum = round_if_truthy (max_wind_speed stats),
                       report_total_records = total_records stats \<rparr>))"

section \<open>Listing (get\_all\_weather\_data)\<close>

text \<open>
  The handler returns the selected rows; the transport layer serialises each of them as a
  \<open>WeatherDataSummary\<close>. Rows of equal \<open>station_time\<close> keep the table's order.
\<close>

definition get_all_weather_data ::
  "int \<Rightarrow> int \<Rightarrow> string option \<Rightarrow> datetime option \<Rightarrow> datetime option \<Rightarrow> Session
     \<Rightarrow> http_error + WeatherStationData list" where
  "get_all_weather_data skip limit source_q start_date end_date db =
     (if skip < 0 then Inl (RequestValidationError [''skip''])
      else if limit < 1 \<or> 1000 < limit then Inl (RequestValidationError [''limit''])
      else
        (let query0 = rows db;
             query1 = (if truthy_str source_q
                       then filter (\<lambda>r. source r = the source_q) query0 else query0);
             query2 = (if truthy_datetime start_date
                       then filter (\<lambda>r. the start_date \<le> station_time r) query1 else query1);
             query3 = (if truthy_datetime end_date
                       then filter (\<lambda>r. station_time r \<le> the end_date) query2 else query2);
             data = take (nat limit) (drop (nat skip)
                      (sort_key (\<lambda>r. - station_time r) query3))
         in Inr data))"

section \<open>Lookup and latest per source\<close>

definition get_weather_data_by_id :: "int \<Rightarrow> Session \<Rightarrow> http_error + WeatherStationData" where
  "get_weather_data_by_id data_id db =
     (case find (\<lambda>r. id_col r = data_id) (rows db) of
        None \<Rightarrow> Inl (HTTPException 404 (No_se_encontraron_datos_con_ID data_id))
      | Some data \<Rightarrow> Inr data)"

text \<open>The subquery: one pair (source, max id) for each group of rows of equal source.\<close>

definition subquery :: "Session \<Rightarrow> (string \<times> int) list" where
  "subquery db =
     map (\<lambda>s. (s, Max (set (map id_col (filter (\<lambda>r. source r = s) (rows db))))))
       (remdups (map source (rows db)))"

text \<open>The join: a row of the table for every pair of the subquery whose max id is its id.\<close>

definition get_latest_from_all_sources :: "Session \<Rightarrow> WeatherStationData list" where
  "get_latest_from_all_sources db =
     concat (map (\<lambda>r. map (\<lambda>g. r) (filter (\<lambda>g. id_col r = snd g) (subquery db)))
               (rows db))"

section \<open>Marking as processed (mark\_as\_processed)\<close>

text \<open>
  The assignment \<open>data.processed = 1\<close> followed by the commit: an UPDATE of the row when
  the value changes, which also stamps \<open>updated_at\<close> (\<open>onupdate\<close>); no UPDATE for a row that
  already holds the value.
\<close>

definition set_processed :: "datetime \<Rightarrow> WeatherStationData \<Rightarrow> WeatherStationData" where
  "set_processed now r =
     (if processed r = 1 then r else r\<lparr>processed := 1, updated_at := Some now\<rparr>)"

definition mark_as_processed ::
  "int \<Rightarrow> datetime \<Rightarrow> Session \<Rightarrow> Session \<times> (http_error + DataResponse)" where
  "mark_as_processed data_id now db =
     (case find (\<lambda>r. id_col r = data_id) (rows db) of
        None \<Rightarrow> (db, Inl (HTTPException 404 Dato_no_encontrado))
      | Some data \<Rightarrow>
          (db\<lparr>rows := map (\<lambda>r. if id_col r = data_id then set_processed now r else r)
                         (rows db)\<rparr>,
           Inr \<lparr> success = True, message = Dato_marcado_como_procesado,
                 id_resp = Some data_id \<rparr>))"

section \<open>Ingestion (receive\_weather\_data)\<close>

text \<open>
  One field of the request body before validation: absent from the body; present with a
  value that the declared type does not accept (123 for a \<open>str\<close>, \<open>'abc'\<close> for a float,
  \<open>'yesterday'\<close> or \<open>null\<close> for a \<open>datetime\<close>); or present with a value that the
  declared type accepts, given as the Python value that validation yields (\<open>null\<close> in an
  \<open>Optional\<close> field is \<open>Value None\<close>).
\<close>

datatype 'a field = Absent | IllTyped | Value 'a

text \<open>
  The request body before validation. The fields have the names of \<open>DataReceived\<close> with the
  suffix \<open>_p\<close>, and the types that the model declares.
\<close>

record payload =
  stationTime_p :: "datetime field"
  temperature_p :: "real option field"
  precipitation_p :: "real option field"
  realPrecipitation_p :: "real option field"
  presure_p :: "real option field"
  windSpeed_p :: "real option field"
  windDirection_p :: "real option field"
  humidity_p :: "real option field"
  radiation_p :: "real option field"
  eto_p :: "real option field"
  compassRose_p :: "string option field"
  realETO_p :: "real option field"
  radiationUV_p :: "real option field"
  source_p :: "string field"

text \<open>
  The validation errors of one field. A field without a default (\<open>stationTime\<close>,
  \<open>source\<close>) must be present; a field with the default \<open>None\<close> may be absent; a value
  that is present must be accepted by the declared type. No field carries any other
  constraint.
\<close>

definition required_errors :: "string \<Rightarrow> 'a field \<Rightarrow> string list" where
  "required_errors name f = (case f of Value v \<Rightarrow> [] | Absent \<Rightarrow> [name] | IllTyped \<Rightarrow> [name])"

definition optional_errors :: "string \<Rightarrow> 'a option field \<Rightarrow> string list" where
  "optional_errors name f = (case f of IllTyped \<Rightarrow> [name] | Absent \<Rightarrow> [] | Value v \<Rightarrow> [])"

text \<open>The value of a field with the default \<open>None\<close>.\<close>

definition optional_value :: "'a option field \<Rightarrow> 'a option" where
  "optional_value f = (case f of Value v \<Rightarrow> v | Absent \<Rightarrow> None | IllTyped \<Rightarrow> None)"

text \<open>
  Validation of the body against \<open>DataReceived\<close>: the errors of all fields, in the order of
  declaration, are reported together; without errors the model object is built.
\<close>

definition validation_errors :: "payload \<Rightarrow> string list" where
  "validation_errors p =
     required_errors ''stationTime'' (stationTime_p p) @
     optional_errors ''temperature'' (temperature_p p) @
     optional_errors ''precipitation'' (precipitation_p p) @
     optional_errors ''realPrecipitation'' (realPrecipitation_p p) @
     optional_errors ''presure'' (presure_p p) @
     optional_errors ''windSpeed'' (windSpeed_p p) @
     optional_errors ''windDirection'' (windDirection_p p) @
     optional_errors ''humidity'' (humidity_p p) @
     optional_errors ''radiation'' (radiation_p p) @
     optional_errors ''eto'' (eto_p p) @
     optional_errors ''compassRose'' (compassRose_p p) @
     optional_errors ''realETO'' (realETO_p p) @
     optional_errors ''radiationUV'' (radiationUV_p p) @
     required_errors ''source'' (source_p p)"

definition validate_DataReceived :: "payload \<Rightarrow> http_error + DataReceived" where
  "validate_DataReceived p =
     (case (stationTime_p p, source_p p) of
        (Value t, Value s) \<Rightarrow>
          if validation_errors p \<noteq> [] then Inl (RequestValidationError (validation_errors p))
          else Inr \<lparr> stationTime = t,
                     temperature_in = optional_value (temperature_p p),
                     precipitation_in = optional_value (precipitation_p p),
                     realPrecipitation = optional_value (realPrecipitation_p p),
                     presure_in = optional_value (presure_p p),
                     windSpeed = optional_value (windSpeed_p p),
                     windDirection = optional_value (windDirection_p p),
                     humidity_in = optional_value (humidity_p p),
                     radiation_in = optional_value (radiation_p p),
                     eto_in = optional_value (eto_p p),
                     compassRose = optional_value (compassRose_p p),
                     realETO = optional_value (realETO_p p),
                     radiationUV = optional_value (radiationUV_p p),
                     source_in = s \<rparr>
      | _ \<Rightarrow> Inl (RequestValidationError (validation_errors p)))"

definition opt_float :: "real option \<Rightarrow> pyval" where
  "opt_float v = (case v of None \<Rightarrow> PyNone | Some x \<Rightarrow> PyFloat x)"

definition opt_str :: "string option \<Rightarrow> pyval" where
  "opt_str v = (case v of None \<Rightarrow> PyNone | Some x \<Rightarrow> PyStr x)"

text \<open>The attributes of a \<open>DataReceived\<close> object: its declared fields and nothing else.\<close>

definition DataReceived_dict :: "DataReceived \<Rightarrow> pyobj" where
  "DataReceived_dict data =
     [(''stationTime'', PyDatetime (stationTime data)),
      (''temperature'', opt_float (temperature_in data)),
      (''precipitation'', opt_float (precipitation_in data)),
      (''realPrecipitation'', opt_float (realPrecipitation data)),
      (''presure'', opt_float (presure_in data)),
      (''windSpeed'', opt_float (windSpeed data)),
      (''windDirection'', opt_float (windDirection data)),
      (''humidity'', opt_float (humidity_in data)),
      (''radiation'', opt_float (radiation_in data)),
      (''eto'', opt_float (eto_in data)),
      (''compassRose'', opt_str (compassRose data)),
      (''realETO'', opt_float (realETO data)),
      (''radiationUV'', opt_float (radiationUV data)),
      (''source'', PyStr (source_in data))]"

text \<open>\<open>data.name\<close>: the attribute, or \<open>AttributeError\<close> when the object has none of that name.\<close>

definition getattr_DataReceived :: "DataReceived \<Rightarrow> string \<Rightarrow> py_error + pyval" where
  "getattr_DataReceived data name =
     (case map_of (DataReceived_dict data) name of
        None \<Rightarrow> Inl (AttributeError ''DataReceived'' name)
      | Some v \<Rightarrow> Inr v)"

text \<open>
  The keyword arguments of the call \<open>WeatherStationData(...)\<close> in the handler, in the order
  written: each keyword with the attribute of \<open>data\<close> that gives its value.
\<close>

definition webhook_kwargs :: "(string \<times> string) list" where
  "webhook_kwargs =
     [(''station_time'', ''stationTime''),
      (''source'', ''source''),
      (''temperature'', ''temperature''),
      (''precipitation'', ''precipitation''),
      (''real_precipitation'', ''realPrecipitation''),
      (''presure'', ''presure''),
      (''wind_speed'', ''windSpeed''),
      (''wind_direction'', ''windDirection''),
      (''humidity'', ''humidity''),
      (''radiation'', ''radiation''),
      (''eto'', ''eto''),
      (''compass_rose'', ''compassRose''),
      (''real_eto'', ''realETO''),
      (''radiation_uv'', ''radiationUV''),
      (''active_sensor'', ''activeSensor''),
      (''solar_panel'', ''solarPanel''),
      (''open_door'', ''openDoor''),
      (''low_battery'', ''lowBattery''),
      (''observations'', ''observations'')]"

text \<open>The arguments are evaluated from left to right; the first exception ends the evaluation.\<close>

fun eval_kwargs :: "DataReceived \<Rightarrow> (string \<times> string) list \<Rightarrow> py_error + pyobj" where
  "eval_kwargs data [] = Inr []"
| "eval_kwargs data ((k, a) # rest) =
     (case getattr_DataReceived data a of
        Inl e \<Rightarrow> Inl e
      | Inr v \<Rightarrow> (case eval_kwargs data rest of
                    Inl e \<Rightarrow> Inl e
                  | Inr kvs \<Rightarrow> Inr ((k, v) # kvs)))"

text \<open>The mapped attributes of \<open>WeatherStationData\<close>.\<close>

definition WeatherStationData_columns :: "string list" where
  "WeatherStationData_columns =
     [''id'', ''station_time'', ''source'', ''temperature'', ''precipitation'',
      ''real_precipitation'', ''presure'', ''wind_speed'', ''wind_direction'', ''humidity'',
      ''radiation'', ''eto'', ''compass_rose'', ''real_eto'', ''radiation_uv'', ''processed'',
      ''created_at'', ''updated_at'']"

text \<open>
  The constructor of a mapped class: a keyword that names no attribute of the class is a
  \<open>TypeError\<close>; otherwise the new object holds the keywords' values.
\<close>

definition WeatherStationData_init :: "pyobj \<Rightarrow> py_error + pyobj" where
  "WeatherStationData_init kwargs =
     (case find (\<lambda>kv. fst kv \<notin> set WeatherStationData_columns) kwargs of
        Some kv \<Rightarrow> Inl (TypeError ''WeatherStationData'' (fst kv))
      | None \<Rightarrow> Inr kwargs)"

definition get_float :: "pyobj \<Rightarrow> string \<Rightarrow> real option" where
  "get_float obj k = (case map_of obj k of Some (PyFloat x) \<Rightarrow> Some x | _ \<Rightarrow> None)"

definition get_str :: "pyobj \<Rightarrow> string \<Rightarrow> string option" where
  "get_str obj k = (case map_of obj k of Some (PyStr x) \<Rightarrow> Some x | _ \<Rightarrow> None)"

definition get_datetime :: "pyobj \<Rightarrow> string \<Rightarrow> datetime option" where
  "get_datetime obj k = (case map_of obj k of Some (PyDatetime x) \<Rightarrow> Some x | _ \<Rightarrow> None)"

text \<open>
  The INSERT of one object: \<open>station_time\<close> and \<open>source\<close> are not nullable, \<open>source\<close> holds
  at most 100 characters and \<open>compass_rose\<close> at most 10; \<open>id\<close> comes from the sequence,
  \<open>processed\<close> defaults to 0 and \<open>created_at\<close> to the server's time.
\<close>

definition insert_row :: "pyobj \<Rightarrow> int \<Rightarrow> datetime \<Rightarrow> py_error + WeatherStationData" where
  "insert_row obj new_id now =
     (case get_datetime obj ''station_time'' of
        None \<Rightarrow> Inl (IntegrityError ''station_time'')
      | Some t \<Rightarrow>
          (case get_str obj ''source'' of
             None \<Rightarrow> Inl (IntegrityError ''source'')
           | Some s \<Rightarrow>
               if 100 < length s then Inl (DataError ''source'')
               else if (case get_str obj ''compass_rose'' of
                          None \<Rightarrow> False | Some c \<Rightarrow> 10 < length c)
               then Inl (DataError ''compass_rose'')
               else Inr \<lparr> id_col = new_id,
                          station_time = t,
                          source = s,
                          temperature = get_float obj ''temperature'',
                          precipitation = get_float obj ''precipitation'',
                          real_precipitation = get_float obj ''real_precipitation'',
                          presure = get_float obj ''presure'',
                          wind_speed = get_float obj ''wind_speed'',
                          wind_direction = get_float obj ''wind_direction'',
                          humidity = get_float obj ''humidity'',
                          radiation = get_float obj ''radiation'',
                          eto = get_float obj ''eto'',
                          compass_rose = get_str obj ''compass_rose'',
                          real_eto = get_float obj ''real_eto'',
                          radiation_uv = get_float obj ''radiation_uv'',
                          processed = 0,
                          created_at = now,
                          updated_at = None \<rparr>))"

fun flush :: "pyobj list \<Rightarrow> int \<Rightarrow> datetime \<Rightarrow> py_error + WeatherStationData list" where
  "flush [] new_id now = Inr []"
| "flush (obj # objs) new_id now =
     (case insert_row obj new_id now of
        Inl e \<Rightarrow> Inl e
      | Inr r \<Rightarrow> (case flush objs (new_id + 1) now of
                    Inl e \<Rightarrow> Inl e
                  | Inr rs \<Rightarrow> Inr (r # rs)))"

definition db_add :: "pyobj \<Rightarrow> Session \<Rightarrow> Session" where
  "db_add obj db = db\<lparr>pending := pending db @ [obj]\<rparr>"

definition db_rollback :: "Session \<Rightarrow> Session" where
  "db_rollback db = db\<lparr>pending := []\<rparr>"

text \<open>
  \<open>db.commit()\<close>: the pending objects are inserted in one transaction. It fails as a whole
  when the store is not reachable (\<open>store_ok\<close> is false) or when an INSERT is refused, and
  then the table is as before.
\<close>

definition db_commit :: "bool \<Rightarrow> datetime \<Rightarrow> Session \<Rightarrow> Session \<times> (py_error + unit)" where
  "db_commit store_ok now db =
     (if \<not> store_ok then (db, Inl OperationalError)
      else (case flush (pending db) (next_id db) now of
              Inl e \<Rightarrow> (db, Inl e)
            | Inr new_rows \<Rightarrow>
                (\<lparr> rows = rows db @ new_rows,
                   next_id = next_id db + int (length new_rows),
                   pending = [] \<rparr>, Inr ())))"

text \<open>
  The \<open>try\<close> block of the handler. After the commit, \<open>db.refresh(db_data)\<close> loads the row of
  the object added last, which is the last row of the table.
\<close>

definition receive_try :: "DataReceived \<Rightarrow> bool \<Rightarrow> datetime \<Rightarrow> Session
     \<Rightarrow> Session \<times> (py_error + DataResponse)" where
  "receive_try data store_ok now db =
     (case eval_kwargs data webhook_kwargs of
        Inl e \<Rightarrow> (db, Inl e)
      | Inr kwargs \<Rightarrow>
          (case WeatherStationData_init kwargs of
             Inl e \<Rightarrow> (db, Inl e)
           | Inr db_data \<Rightarrow>
               (case db_commit store_ok now (db_add db_data db) of
                  (db', Inl e) \<Rightarrow> (db', Inl e)
                | (db', Inr u) \<Rightarrow>
                    (db', Inr \<lparr> success = True, message = Datos_recibidos_y_guardados,
                                id_resp = Some (id_col (last (rows db'))) \<rparr>))))"

text \<open>The handler: the \<open>try\<close> block, and the \<open>except\<close> clause that rolls back and raises.\<close>

definition receive_weather_data :: "DataReceived \<Rightarrow> bool \<Rightarrow> datetime \<Rightarrow> Session
     \<Rightarrow> Session \<times> (http_error + DataResponse)" where
  "receive_weather_data data store_ok now db =
     (case receive_try data store_ok now db of
        (db', Inr resp) \<Rightarrow> (db', Inr resp)
      | (db', Inl e) \<Rightarrow>
          (db_rollback db', Inl (HTTPException 500 (Error_al_guardar_datos e))))"

text \<open>The route \<open>POST /webhook\<close>: validation of the body, then the handler.\<close>

definition post_webhook :: "payload \<Rightarrow> bool \<Rightarrow> datetime \<Rightarrow> Session
     \<Rightarrow> Session \<times> (http_error + DataResponse)" where
  "post_webhook p store_ok now db =
     (case validate_DataReceived p of
        Inl e \<Rightarrow> (db, Inl e)
      | Inr data \<Rightarrow> receive_weather_data data store_ok now db)"

text \<open>A row and a body with nothing set, from which examples are written as updates.\<close>

definition blank_row :: WeatherStationData where
  "blank_row =
     \<lparr> id_col = 0, station_time = 0, source = [], temperature = None,
       precipitation = None, real_precipitation = None, presure = None, wind_speed = None,
       wind_direction = None, humidity = None, radiation = None, eto = None,
       compass_rose = None, real_eto = None, radiation_uv = None, processed = 0,
       created_at = 0, updated_at = None \<rparr>"

definition blank_payload :: payload where
  "blank_payload =
     \<lparr> stationTime_p = Absent, temperature_p = Absent, precipitation_p = Absent,
       realPrecipitation_p = Absent, presure_p = Absent, windSpeed_p = Absent,
       windDirection_p = Absent, humidity_p = Absent, radiation_p = Absent, eto_p = Absent,
       compassRose_p = Absent, realETO_p = Absent, radiationUV_p = Absent,
       source_p = Absent \<rparr>"

definition table_of :: "WeatherStationData list \<Rightarrow> Session" where
  "table_of rs = \<lparr> rows = rs, next_id = 1 + fold max (map id_col rs) 0, pending = [] \<rparr>"

section \<open>Vocabulary of the properties\<close>

text \<open>A request rejected by validation, as opposed to an exception of the handler.\<close>

fun is_validation_error :: "http_error + 'a \<Rightarrow> bool" where
  "is_validation_error (Inl (RequestValidationError m)) = True"
| "is_validation_error _ = False"

text \<open>Some field of the body holds a value that its declared type does not accept.\<close>

definition ill_typed :: "payload \<Rightarrow> bool" where
  "ill_typed p =
     (stationTime_p p = IllTyped \<or> temperature_p p = IllTyped \<or> precipitation_p p = IllTyped
      \<or> realPrecipitation_p p = IllTyped \<or> presure_p p = IllTyped \<or> windSpeed_p p = IllTyped
      \<or> windDirection_p p = IllTyped \<or> humidity_p p = IllTyped \<or> radiation_p p = IllTyped
      \<or> eto_p p = IllTyped \<or> compassRose_p p = IllTyped \<or> realETO_p p = IllTyped
      \<or> radiationUV_p p = IllTyped \<or> source_p p = IllTyped)"

text \<open>A table with a reading of empty source among readings of two named sources.\<close>

definition mixed_sources :: Session where
  "mixed_sources = table_of
     [blank_row\<lparr>id_col := 1, station_time := 100, source := []\<rparr>,
      blank_row\<lparr>id_col := 2, station_time := 200, source := ''a''\<rparr>,
      blank_row\<lparr>id_col := 3, station_time := 300, source := ''b''\<rparr>]"

text \<open>The maximum \<open>id\<close> among the rows sharing a source.\<close>

definition max_id_of :: "Session \<Rightarrow> string \<Rightarrow> int" where
  "max_id_of db s = Max (id_col ` {x \<in> set (rows db). source x = s})"

text \<open>The example body of \<open>DataReceived.Config\<close>; its \<open>stationTime\<close> is 2023-10-27T10:00:00Z.\<close>

definition example_payload :: payload where
  "example_payload =
     \<lparr> stationTime_p = Value 1698400800000000, temperature_p = Value (Some 25.5),
       precipitation_p = Value (Some 0), realPrecipitation_p = Value (Some 0),
       presure_p = Value (Some 1012.5), windSpeed_p = Value (Some 10.2),
       windDirection_p = Value (Some 180), humidity_p = Value (Some 60),
       radiation_p = Value (Some 500), eto_p = Value (Some 0.2),
       compassRose_p = Value (Some ''S''), realETO_p = Value (Some 0.21),
       radiationUV_p = Value (Some 5), source_p = Value ''sensor_001'' \<rparr>"

text \<open>Two stations whose readings arrive interleaved and out of order in time.\<close>

definition two_stations :: Session where
  "two_stations = table_of
     [blank_row\<lparr>id_col := 1, station_time := 300, source := ''a''\<rparr>,
      blank_row\<lparr>id_col := 2, station_time := 200, source := ''b''\<rparr>,
      blank_row\<lparr>id_col := 3, station_time := 100, source := ''a''\<rparr>,
      blank_row\<lparr>id_col := 4, station_time := 400, source := ''b''\<rparr>]"

text \<open>The example body once validated.\<close>

definition example_data :: DataReceived where
  "example_data =
     \<lparr> stationTime = 1698400800000000, temperature_in = Some 25.5,
       precipitation_in = Some 0, realPrecipitation = Some 0, presure_in = Some 1012.5,
       windSpeed = Some 10.2, windDirection = Some 180, humidity_in = Some 60,
       radiation_in = Some 500, eto_in = Some 0.2, compassRose = Some ''S'',
       realETO = Some 0.21, radiationUV = Some 5, source_in = ''sensor_001'' \<rparr>"

text \<open>
  The three rules of the rain estimate in the words of the specification, over the readings
  of the window in ascending order of station time.
\<close>

definition spec_average_humidity :: "WeatherStationData list \<Rightarrow> real" where
  "spec_average_humidity rs =
     (let hs = non_null humidity rs
      in if hs = [] then 0 else sum_list hs / real (length hs))"

definition spec_humidity_points :: "WeatherStationData list \<Rightarrow> int" where
  "spec_humidity_points rs =
     (if 90 < spec_average_humidity rs then 30
      else if 75 < spec_average_humidity rs then 15 else 0)"

definition spec_pressure_change :: "WeatherStationData list \<Rightarrow> real" where
  "spec_pressure_change rs =
     (case presure (hd rs) of
        None \<Rightarrow> 0
      | Some fp \<Rightarrow> (case presure (last rs) of None \<Rightarrow> 0 | Some lp \<Rightarrow> lp - fp))"

definition spec_pressure_points :: "WeatherStationData list \<Rightarrow> int" where
  "spec_pressure_points rs =
     (if presure (hd rs) = None \<or> presure (last rs) = None then 0
      else if spec_pressure_change rs < - 1.5 then 35
      else if spec_pressure_change rs < - 0.5 then 15 else 0)"

definition spec_total_precipitation :: "WeatherStationData list \<Rightarrow> real" where
  "spec_total_precipitation rs = sum_list (non_null real_precipitation rs)"

definition spec_precipitation_points :: "WeatherStationData list \<Rightarrow> int" where
  "spec_precipitation_points rs = (if 0.1 < spec_total_precipitation rs then 25 else 0)"

text \<open>A station with two humid readings, falling pressure and rain, stored out of order.\<close>

definition rainy_station :: Session where
  "rainy_station = table_of
     [blank_row\<lparr>id_col := 1, station_time := 3600000000, source := ''s'', humidity := Some 95,
                presure := Some 1008, real_precipitation := Some 0.1\<rparr>,
      blank_row\<lparr>id_col := 2, station_time := 0, source := ''s'', humidity := Some 95,
                presure := Some 1010, real_precipitation := Some 0.1\<rparr>]"

text \<open>
  A row passes the filters of a list query: the source when one is given and is not empty,
  the start and the end of the time range when given.
\<close>

definition matches_filters ::
  "string option \<Rightarrow> datetime option \<Rightarrow> datetime option \<Rightarrow> WeatherStationData \<Rightarrow> bool" where
  "matches_filters source_q start_date end_date r =
     ((case source_q of None \<Rightarrow> True | Some s \<Rightarrow> s = [] \<or> source r = s) \<and>
      (case start_date of None \<Rightarrow> True | Some t \<Rightarrow> t \<le> station_time r) \<and>
      (case end_date of None \<Rightarrow> True | Some t \<Rightarrow> station_time r \<le> t))"

text \<open>A row passes every filter that the query supplies, an empty source included.\<close>

definition satisfies_supplied ::
  "string option \<Rightarrow> datetime option \<Rightarrow> datetime option \<Rightarrow> WeatherStationData \<Rightarrow> bool" where
  "satisfies_supplied source_q start_date end_date r =
     ((case source_q of None \<Rightarrow> True | Some s \<Rightarrow> source r = s) \<and>
      (case start_date of None \<Rightarrow> True | Some t \<Rightarrow> t \<le> station_time r) \<and>
      (case end_date of None \<Rightarrow> True | Some t \<Rightarrow> station_time r \<le> t))"

text \<open>Ordered by station time, descending.\<close>

definition newest_first :: "WeatherStationData list \<Rightarrow> bool" where
  "newest_first rs = sorted_wrt (\<lambda>a b. station_time b \<le> station_time a) rs"

text \<open>A station whose only reading in the window is at 0 degrees.\<close>

definition freezing_station :: Session where
  "freezing_station = table_of
     [blank_row\<lparr>id_col := 1, station_time := 3600000000, source := ''s'',
                temperature := Some 0, humidity := Some 50\<rparr>]"

section \<open>Ingestion: the handler as written\<close>

lemma getattr_activeSensor:
  "getattr_DataReceived data ''activeSensor''
     = Inl (AttributeError ''DataReceived'' ''activeSensor'')"
  by (simp add: getattr_DataReceived_def DataReceived_dict_def)

lemma getattr_declared:
  "getattr_DataReceived data ''stationTime'' = Inr (PyDatetime (stationTime data))"
  "getattr_DataReceived data ''source'' = Inr (PyStr (source_in data))"
  "getattr_DataReceived data ''temperature'' = Inr (opt_float (temperature_in data))"
  "getattr_DataReceived data ''precipitation'' = Inr (opt_float (precipitation_in data))"
  "getattr_DataReceived data ''realPrecipitation'' = Inr (opt_float (realPrecipitation data))"
  "getattr_DataReceived data ''presure'' = Inr (opt_float (presure_in data))"
  "getattr_DataReceived data ''windSpeed'' = Inr (opt_float (windSpeed data))"
  "getattr_DataReceived data ''windDirection'' = Inr (opt_float (windDirection data))"
  "getattr_DataReceived data ''humidity'' = Inr (opt_float (humidity_in data))"
  "getattr_DataReceived data ''radiation'' = Inr (opt_float (radiation_in data))"
  "getattr_DataReceived data ''eto'' = Inr (opt_float (eto_in data))"
  "getattr_DataReceived data ''compassRose'' = Inr (opt_str (compassRose data))"
  "getattr_DataReceived data ''realETO'' = Inr (opt_float (realETO data))"
  "getattr_DataReceived data ''radiationUV'' = Inr (opt_float (radiationUV data))"
  by (simp_all add: getattr_DataReceived_def DataReceived_dict_def)

text \<open>
  The fifteenth keyword argument reads \<open>data.activeSensor\<close>, which \<open>DataReceived\<close> does not
  declare: the evaluation of the arguments ends there, whatever the body holds.
\<close>

lemma eval_kwargs_fails:
  "eval_kwargs data webhook_kwargs = Inl (AttributeError ''DataReceived'' ''activeSensor'')"
  by (simp add: webhook_kwargs_def getattr_declared getattr_activeSensor)

lemma receive_weather_data_fails:
  "receive_weather_data data store_ok now db =
     (db_rollback db,
      Inl (HTTPException 500
             (Error_al_guardar_datos (AttributeError ''DataReceived'' ''activeSensor''))))"
  by (simp add: receive_weather_data_def receive_try_def eval_kwargs_fails)

lemma db_commit_failure:
  "db_commit store_ok now db = (db', Inl e) \<Longrightarrow> db' = db"
  by (auto simp: db_commit_def split: if_splits sum.splits)

lemma receive_try_failure:
  assumes "receive_try data store_ok now db = (db', Inl e)"
  shows "rows db' = rows db \<and> next_id db' = next_id db"
  using assms
  by (auto simp: receive_try_def db_add_def split: sum.splits prod.splits
           dest!: db_commit_failure)

lemma required_errors_Nil: "required_errors name f = [] \<longleftrightarrow> (\<exists>v. f = Value v)"
  by (cases f) (simp_all add: required_errors_def)

lemma optional_errors_Nil: "optional_errors name f = [] \<longleftrightarrow> f \<noteq> IllTyped"
  by (cases f) (simp_all add: optional_errors_def)

lemma validation_errors_Nil:
  "validation_errors p = [] \<longleftrightarrow>
     (\<exists>t. stationTime_p p = Value t) \<and> (\<exists>s. source_p p = Value s) \<and> \<not> ill_typed p"
  unfolding validation_errors_def ill_typed_def append_is_Nil_conv
    required_errors_Nil optional_errors_Nil
  by auto

lemma validate_rejects_iff:
  "is_validation_error (validate_DataReceived p) \<longleftrightarrow> validation_errors p \<noteq> []"
proof (cases "validation_errors p = []")
  case True
  then obtain t s where "stationTime_p p = Value t" "source_p p = Value s"
    using validation_errors_Nil by blast
  with True show ?thesis by (simp add: validate_DataReceived_def)
next
  case False
  then show ?thesis
    by (cases "stationTime_p p"; cases "source_p p") (simp_all add: validate_DataReceived_def)
qed

text \<open>The route answers with a validation error exactly when validation does.\<close>

lemma post_webhook_rejects_iff:
  "is_validation_error (snd (post_webhook p store_ok now db))
     \<longleftrightarrow> validation_errors p \<noteq> []"
proof (cases "validate_DataReceived p")
  case (Inl e)
  then show ?thesis
    using validate_rejects_iff[of p] by (cases e) (simp_all add: post_webhook_def)
next
  case (Inr data)
  then show ?thesis
    using validate_rejects_iff[of p] by (simp add: post_webhook_def receive_weather_data_fails)
qed

lemma field_not_Value: "(\<forall>v. f \<noteq> Value v) \<longleftrightarrow> f = Absent \<or> f = IllTyped"
  by (cases f) simp_all

lemma rejected_iff:
  "is_validation_error (snd (post_webhook p store_ok now db))
     \<longleftrightarrow> stationTime_p p = Absent \<or> source_p p = Absent \<or> ill_typed p"
proof -
  have "validation_errors p \<noteq> [] \<longleftrightarrow>
          (\<forall>t. stationTime_p p \<noteq> Value t) \<or> (\<forall>s. source_p p \<noteq> Value s) \<or> ill_typed p"
    using validation_errors_Nil[of p] by blast
  also have "\<dots> \<longleftrightarrow> stationTime_p p = Absent \<or> source_p p = Absent \<or> ill_typed p"
    unfolding field_not_Value by (auto simp: ill_typed_def)
  finally show ?thesis by (simp only: post_webhook_rejects_iff)
qed

lemma ill_typed_measurements_set:
  "ill_typed (p\<lparr>temperature_p := Value x1, precipitation_p := Value x2,
                realPrecipitation_p := Value x3, presure_p := Value x4,
                windSpeed_p := Value x5, windDirection_p := Value x6,
                humidity_p := Value x7, radiation_p := Value x8, eto_p := Value x9,
                realETO_p := Value x10, radiationUV_p := Value x11\<rparr>)
     \<longleftrightarrow> stationTime_p p = IllTyped \<or> compassRose_p p = IllTyped \<or> source_p p = IllTyped"
  by (simp add: ill_typed_def)

lemma accepted_any_float:
  assumes "\<not> is_validation_error (snd (post_webhook p store_ok now db))"
  shows "\<not> is_validation_error
             (snd (post_webhook
                     (p\<lparr>temperature_p := Value x1, precipitation_p := Value x2,
                        realPrecipitation_p := Value x3, presure_p := Value x4,
                        windSpeed_p := Value x5, windDirection_p := Value x6,
                        humidity_p := Value x7, radiation_p := Value x8, eto_p := Value x9,
                        realETO_p := Value x10, radiationUV_p := Value x11\<rparr>)
                     store_ok now db))"
proof -
  from assms have present: "stationTime_p p \<noteq> Absent" "source_p p \<noteq> Absent"
    and typed: "\<not> ill_typed p"
    by (simp_all add: rejected_iff)
  from typed have "stationTime_p p \<noteq> IllTyped" "compassRose_p p \<noteq> IllTyped"
    "source_p p \<noteq> IllTyped"
    by (simp_all add: ill_typed_def)
  with present show ?thesis
    by (simp add: rejected_iff ill_typed_measurements_set)
qed

text \<open>
  Bodies that hold both required fields and one value of the wrong type are rejected too.
\<close>

lemma ill_typed_bodies_rejected:
  "is_validation_error (snd (post_webhook (example_payload\<lparr>source_p := IllTyped\<rparr>) True 0 db))"
  "is_validation_error (snd (post_webhook (example_payload\<lparr>temperature_p := IllTyped\<rparr>) True 0 db))"
  "is_validation_error (snd (post_webhook (example_payload\<lparr>stationTime_p := IllTyped\<rparr>) True 0 db))"
  by (simp_all add: rejected_iff ill_typed_def example_payload_def)

text \<open>
  C1. Claim: every valid payload is ingested with success and can be read back by its id.
  The handler does not do so: for the example body of the model the request ends in a
  status 500 that reports the missing attribute \<open>activeSensor\<close>, and the table stays empty.
\<close>

theorem ingest_example_fails:
  "post_webhook example_payload True 1698400800000000 (table_of []) =
     (table_of [],
      Inl (HTTPException 500
             (Error_al_guardar_datos (AttributeError ''DataReceived'' ''activeSensor''))))"
  by (simp add: post_webhook_def validate_DataReceived_def validation_errors_def
        required_errors_def optional_errors_def example_payload_def
        receive_weather_data_fails db_rollback_def table_of_def)

text \<open>
  C3 as stated fails: a body whose \<open>source\<close> is the empty string, with \<open>stationTime\<close>
  present, is not rejected by validation.
\<close>

theorem empty_source_not_rejected:
  "\<not> is_validation_error
       (snd (post_webhook (blank_payload\<lparr>stationTime_p := Value 0, source_p := Value []\<rparr>)
               True 0 (table_of [])))"
  by (simp add: post_webhook_def validate_DataReceived_def validation_errors_def
        required_errors_def optional_errors_def receive_weather_data_fails blank_payload_def)

text \<open>
  C3, amended. Ingestion rejects, with a validation error, every body in which
  \<open>stationTime\<close> or \<open>source\<close> is missing, and does not reject a body for an empty
  \<open>source\<close>. Besides the presence of these two fields only the declared types are
  validated: a body is rejected exactly when a required field is missing or some field holds
  a value that its declared type does not accept. So among the bodies whose values have their
  declared types, the absence of a required field is the only ground of rejection, and any
  floating-point value (or \<open>null\<close>) is accepted for every measurement field.
\<close>

theorem validation_rejects_missing_or_ill_typed:
  "(is_validation_error (snd (post_webhook p store_ok now db))
      \<longleftrightarrow> stationTime_p p = Absent \<or> source_p p = Absent \<or> ill_typed p)
   \<and> (\<not> ill_typed p \<longrightarrow>
        (is_validation_error (snd (post_webhook p store_ok now db))
           \<longleftrightarrow> stationTime_p p = Absent \<or> source_p p = Absent))
   \<and> (\<not> is_validation_error (snd (post_webhook p store_ok now db)) \<longrightarrow>
        (\<forall>x1 x2 x3 x4 x5 x6 x7 x8 x9 x10 x11.
           \<not> is_validation_error
               (snd (post_webhook
                       (p\<lparr>temperature_p := Value x1, precipitation_p := Value x2,
                          realPrecipitation_p := Value x3, presure_p := Value x4,
                          windSpeed_p := Value x5, windDirection_p := Value x6,
                          humidity_p := Value x7, radiation_p := Value x8, eto_p := Value x9,
                          realETO_p := Value x10, radiationUV_p := Value x11\<rparr>)
                       store_ok now db))))"
proof (intro conjI)
  show "is_validation_error (snd (post_webhook p store_ok now db))
      \<longleftrightarrow> stationTime_p p = Absent \<or> source_p p = Absent \<or> ill_typed p"
    by (rule rejected_iff)
  show "\<not> ill_typed p \<longrightarrow>
        (is_validation_error (snd (post_webhook p store_ok now db))
           \<longleftrightarrow> stationTime_p p = Absent \<or> source_p p = Absent)"
    by (simp add: rejected_iff)
  show "\<not> is_validation_error (snd (post_webhook p store_ok now db)) \<longrightarrow>
        (\<forall>x1 x2 x3 x4 x5 x6 x7 x8 x9 x10 x11.
           \<not> is_validation_error
               (snd (post_webhook
                       (p\<lparr>temperature_p := Value x1, precipitation_p := Value x2,
                          realPrecipitation_p := Value x3, presure_p := Value x4,
                          windSpeed_p := Value x5, windDirection_p := Value x6,
                          humidity_p := Value x7, radiation_p := Value x8, eto_p := Value x9,
                          realETO_p := Value x10, radiationUV_p := Value x11\<rparr>)
                       store_ok now db)))"
    by (intro impI allI) (rule accepted_any_float)
qed

theorem validation_rejects_missing_or_ill_typed_witness:
  "is_validation_error (snd (post_webhook (blank_payload\<lparr>source_p := Value ''sensor_001''\<rparr>)
                               True 0 (table_of [])))
   \<and> is_validation_error (snd (post_webhook (example_payload\<lparr>temperature_p := IllTyped\<rparr>)
                               True 0 (table_of [])))
   \<and> \<not> ill_typed example_payload
   \<and> \<not> is_validation_error (snd (post_webhook example_payload True 0 (table_of [])))
   \<and> \<not> is_validation_error
         (snd (post_webhook
                 (example_payload
                    \<lparr>temperature_p := Value (Some (- 500)), precipitation_p := Value (Some (- 1)),
                     realPrecipitation_p := Value None, presure_p := Value (Some 0),
                     windSpeed_p := Value (Some (- 3)), windDirection_p := Value (Some 720),
                     humidity_p := Value (Some (- 7)), radiation_p := Value None,
                     eto_p := Value (Some 1000000), realETO_p := Value None,
                     radiationUV_p := Value (Some (- 0.5))\<rparr>)
                 True 0 (table_of [])))"
proof -
  have w: "\<not> ill_typed example_payload"
    by (simp add: ill_typed_def example_payload_def)
  have a: "is_validation_error
             (snd (post_webhook (blank_payload\<lparr>source_p := Value ''sensor_001''\<rparr>)
                     True 0 (table_of [])))"
    using validation_rejects_missing_or_ill_typed
            [of "blank_payload\<lparr>source_p := Value ''sensor_001''\<rparr>" True 0 "table_of []"]
    by (simp add: blank_payload_def)
  have b: "is_validation_error
             (snd (post_webhook (example_payload\<lparr>temperature_p := IllTyped\<rparr>)
                     True 0 (table_of [])))"
    using validation_rejects_missing_or_ill_typed
            [of "example_payload\<lparr>temperature_p := IllTyped\<rparr>" True 0 "table_of []"]
    by (simp add: ill_typed_def)
  have c: "\<not> is_validation_error (snd (post_webhook example_payload True 0 (table_of [])))"
    using validation_rejects_missing_or_ill_typed[of example_payload True 0 "table_of []"] w
    by (simp add: example_payload_def)
  note T = validation_rejects_missing_or_ill_typed[of example_payload True 0 "table_of []"]
  from T have "\<not> is_validation_error (snd (post_webhook example_payload True 0 (table_of [])))
     \<longrightarrow> (\<forall>x1 x2 x3 x4 x5 x6 x7 x8 x9 x10 x11.
           \<not> is_validation_error
               (snd (post_webhook
                       (example_payload\<lparr>temperature_p := Value x1, precipitation_p := Value x2,
                          realPrecipitation_p := Value x3, presure_p := Value x4,
                          windSpeed_p := Value x5, windDirection_p := Value x6,
                          humidity_p := Value x7, radiation_p := Value x8, eto_p := Value x9,
                          realETO_p := Value x10, radiationUV_p := Value x11\<rparr>)
                       True 0 (table_of []))))"
    by (rule conjunct2[THEN conjunct2])
  with c have d: "\<forall>x1 x2 x3 x4 x5 x6 x7 x8 x9 x10 x11.
           \<not> is_validation_error
               (snd (post_webhook
                       (example_payload\<lparr>temperature_p := Value x1, precipitation_p := Value x2,
                          realPrecipitation_p := Value x3, presure_p := Value x4,
                          windSpeed_p := Value x5, windDirection_p := Value x6,
                          humidity_p := Value x7, radiation_p := Value x8, eto_p := Value x9,
                          realETO_p := Value x10, radiationUV_p := Value x11\<rparr>)
                       True 0 (table_of [])))"
    by (rule rev_mp)
  have d': "\<not> is_validation_error
         (snd (post_webhook
                 (example_payload
                    \<lparr>temperature_p := Value (Some (- 500)), precipitation_p := Value (Some (- 1)),
                     realPrecipitation_p := Value None, presure_p := Value (Some 0),
                     windSpeed_p := Value (Some (- 3)), windDirection_p := Value (Some 720),
                     humidity_p := Value (Some (- 7)), radiation_p := Value None,
                     eto_p := Value (Some 1000000), realETO_p := Value None,
                     radiationUV_p := Value (Some (- 0.5))\<rparr>)
                 True 0 (table_of [])))"
    by (rule d[rule_format])
  show ?thesis
    by (intro conjI) (rule a b w c d')+
qed

text \<open>
  C8. Whenever the handler fails on a validated body, for whatever reason (an exception while
  the row is built, a store that cannot be reached, an INSERT that is refused), the table and
  the sequence are as before, nothing is left pending, and the caller receives a status 500
  whose detail carries the cause.
\<close>

theorem ingest_failure_leaves_store_unchanged:
  assumes "receive_weather_data data store_ok now db = (db', Inl err)"
  shows "rows db' = rows db \<and> next_id db' = next_id db \<and> pending db' = []
         \<and> (\<exists>e. err = HTTPException 500 (Error_al_guardar_datos e))"
proof -
  obtain db1 res where t: "receive_try data store_ok now db = (db1, res)"
    by (cases "receive_try data store_ok now db")
  show ?thesis
  proof (cases res)
    case (Inl e)
    with t assms have "db' = db_rollback db1"
      and "err = HTTPException 500 (Error_al_guardar_datos e)"
      by (simp_all add: receive_weather_data_def)
    moreover from t Inl have "rows db1 = rows db \<and> next_id db1 = next_id db"
      using receive_try_failure by blast
    ultimately show ?thesis by (simp add: db_rollback_def)
  next
    case (Inr resp)
    with t assms show ?thesis by (simp add: receive_weather_data_def)
  qed
qed

theorem ingest_failure_leaves_store_unchanged_witness:
  "receive_weather_data example_data False 0 two_stations =
     (two_stations,
      Inl (HTTPException 500
             (Error_al_guardar_datos (AttributeError ''DataReceived'' ''activeSensor''))))
   \<and> rows two_stations = rows two_stations \<and> pending two_stations = []"
proof -
  have h: "receive_weather_data example_data False 0 two_stations =
     (two_stations,
      Inl (HTTPException 500
             (Error_al_guardar_datos (AttributeError ''DataReceived'' ''activeSensor''))))"
    by (simp add: receive_weather_data_fails db_rollback_def two_stations_def table_of_def)
  from ingest_failure_leaves_store_unchanged[OF h] h show ?thesis by simp
qed

section \<open>Latest reading per source\<close>

lemma subquery_eq:
  "subquery db = map (\<lambda>s. (s, max_id_of db s)) (remdups (map source (rows db)))"
proof -
  have "set (map id_col (filter (\<lambda>r. source r = s) (rows db)))
        = id_col ` {x \<in> set (rows db). source x = s}" for s
    by auto
  then show ?thesis by (simp add: subquery_def max_id_of_def)
qed

lemma max_id_attained:
  assumes "s \<in> source ` set (rows db)"
  shows "\<exists>x \<in> set (rows db). source x = s \<and> id_col x = max_id_of db s"
proof -
  let ?S = "id_col ` {x \<in> set (rows db). source x = s}"
  have "finite ?S" by simp
  moreover have "?S \<noteq> {}" using assms by auto
  ultimately have "Max ?S \<in> ?S" by (rule Max_in)
  then show ?thesis by (auto simp: max_id_of_def)
qed

lemma max_id_upper:
  assumes "x \<in> set (rows db)"
  shows "id_col x \<le> max_id_of db (source x)"
  using assms by (auto simp: max_id_of_def intro!: Max_ge)

lemma filter_unique:
  assumes "distinct xs" "a \<in> set xs" "\<And>x. x \<in> set xs \<Longrightarrow> P x \<Longrightarrow> x = a"
  shows "filter P xs = (if P a then [a] else [])"
  using assms
proof (induction xs)
  case Nil
  then show ?case by simp
next
  case (Cons y ys)
  note uniq = Cons.prems(3)
  show ?case
  proof (cases "y = a")
    case True
    from Cons.prems(1) True have "a \<notin> set ys" by simp
    then have "\<not> P x" if "x \<in> set ys" for x
      using uniq[of x] that by auto
    then have "filter P ys = []" by (simp add: filter_empty_conv)
    with True show ?thesis by simp
  next
    case False
    from Cons.prems(1) have d: "distinct ys" by simp
    from Cons.prems(2) False have a: "a \<in> set ys" by auto
    have "\<not> P y" using uniq[of y] False by auto
    moreover have "filter P ys = (if P a then [a] else [])"
    proof (rule Cons.IH[OF d a])
      fix x assume "x \<in> set ys" "P x"
      then show "x = a" using uniq[of x] by simp
    qed
    ultimately show ?thesis by simp
  qed
qed

lemma concat_map_if:
  assumes "\<And>x. x \<in> set xs \<Longrightarrow> f x = (if P x then [x] else [])"
  shows "concat (map f xs) = filter P xs"
  using assms by (induction xs) auto

lemma ids_inj:
  assumes "distinct (map id_col (rows db))" "x \<in> set (rows db)" "y \<in> set (rows db)"
    "id_col x = id_col y"
  shows "x = y"
proof -
  from assms(1) have "inj_on id_col (set (rows db))" by (simp add: distinct_map)
  with assms(2-4) show ?thesis by (rule_tac inj_onD)
qed

lemma latest_eq_filter:
  assumes d: "distinct (map id_col (rows db))"
  shows "get_latest_from_all_sources db
         = filter (\<lambda>r. id_col r = max_id_of db (source r)) (rows db)"
  unfolding get_latest_from_all_sources_def
proof (rule concat_map_if)
  fix r assume r: "r \<in> set (rows db)"
  let ?srcs = "remdups (map source (rows db))"
  have uniq: "s = source r" if "s \<in> set ?srcs" "id_col r = max_id_of db s" for s
  proof -
    from that(1) have "s \<in> source ` set (rows db)" by simp
    then obtain x where x: "x \<in> set (rows db)" "source x = s" "id_col x = max_id_of db s"
      using max_id_attained by blast
    with that(2) have "x = r" using ids_inj[OF d] r by simp
    with x show ?thesis by simp
  qed
  have "filter (\<lambda>s. id_col r = max_id_of db s) ?srcs
        = (if id_col r = max_id_of db (source r) then [source r] else [])"
  proof (rule filter_unique[where P = "\<lambda>s. id_col r = max_id_of db s" and a = "source r"
        and xs = "?srcs"])
    show "distinct ?srcs" by simp
    show "source r \<in> set ?srcs" using r by simp
    show "\<And>x. x \<in> set ?srcs \<Longrightarrow> id_col r = max_id_of db x \<Longrightarrow> x = source r"
      using uniq by blast
  qed
  then show "map (\<lambda>g. r) (filter (\<lambda>g. id_col r = snd g) (subquery db))
        = (if id_col r = max_id_of db (source r) then [r] else [])"
    by (simp add: subquery_eq filter_map o_def)
qed

lemma latest_sources_distinct:
  assumes d: "distinct (map id_col (rows db))"
  shows "distinct (map source (get_latest_from_all_sources db))"
proof -
  have "distinct (rows db)" using d by (simp add: distinct_map)
  moreover have "inj_on source {r \<in> set (rows db). id_col r = max_id_of db (source r)}"
    by (rule inj_onI) (use ids_inj[OF d] in auto)
  ultimately show ?thesis
    by (simp add: latest_eq_filter[OF d] distinct_map)
qed

lemma latest_sources_all:
  assumes d: "distinct (map id_col (rows db))"
  shows "source ` set (get_latest_from_all_sources db) = source ` set (rows db)"
proof
  show "source ` set (get_latest_from_all_sources db) \<subseteq> source ` set (rows db)"
    by (auto simp: latest_eq_filter[OF d])
  show "source ` set (rows db) \<subseteq> source ` set (get_latest_from_all_sources db)"
  proof
    fix s assume "s \<in> source ` set (rows db)"
    then obtain x where "x \<in> set (rows db)" "source x = s" "id_col x = max_id_of db s"
      using max_id_attained by blast
    then show "s \<in> source ` set (get_latest_from_all_sources db)"
      by (force simp: latest_eq_filter[OF d])
  qed
qed

text \<open>
  C4. In a table whose ids are unique (\<open>id\<close> is the primary key), the latest-per-source
  query returns exactly one row for each distinct source: as many rows as there are sources,
  no source twice, every source once; and each returned row is the row of the table whose id
  is the maximum id among the rows of its source, whatever the station times are.
\<close>

theorem latest_per_source:
  assumes d: "distinct (map id_col (rows db))"
  shows "length (get_latest_from_all_sources db) = card (source ` set (rows db))
       \<and> distinct (map source (get_latest_from_all_sources db))
       \<and> source ` set (get_latest_from_all_sources db) = source ` set (rows db)
       \<and> (\<forall>r \<in> set (get_latest_from_all_sources db).
            r \<in> set (rows db) \<and>
            id_col r = Max (id_col ` {x \<in> set (rows db). source x = source r}))"
proof -
  have "length (get_latest_from_all_sources db)
        = length (map source (get_latest_from_all_sources db))" by simp
  also have "\<dots> = card (set (map source (get_latest_from_all_sources db)))"
    using latest_sources_distinct[OF d] by (simp only: distinct_card)
  also have "\<dots> = card (source ` set (rows db))"
    using latest_sources_all[OF d] by simp
  finally have "length (get_latest_from_all_sources db) = card (source ` set (rows db))" .
  moreover have "\<forall>r \<in> set (get_latest_from_all_sources db).
            r \<in> set (rows db) \<and>
            id_col r = Max (id_col ` {x \<in> set (rows db). source x = source r})"
    by (auto simp: latest_eq_filter[OF d] max_id_of_def)
  ultimately show ?thesis
    using latest_sources_distinct[OF d] latest_sources_all[OF d] by blast
qed

theorem latest_per_source_witness:
  "distinct (map id_col (rows two_stations))
   \<and> length (get_latest_from_all_sources two_stations) = card (source ` set (rows two_stations))
   \<and> map id_col (get_latest_from_all_sources two_stations) = [3, 4]
   \<and> map station_time (get_latest_from_all_sources two_stations) = [100, 400]"
proof -
  have h: "distinct (map id_col (rows two_stations))"
    by (simp add: two_stations_def table_of_def blank_row_def)
  have "get_latest_from_all_sources two_stations =
     [blank_row\<lparr>id_col := 3, station_time := 100, source := ''a''\<rparr>,
      blank_row\<lparr>id_col := 4, station_time := 400, source := ''b''\<rparr>]"
    by (simp add: get_latest_from_all_sources_def subquery_def two_stations_def table_of_def
          blank_row_def)
  with latest_per_source[OF h] h show ?thesis by simp
qed

section \<open>Rain probability\<close>

lemma rain_estimate_probability:
  "rain_probability (rain_estimate s h rs) =
     spec_humidity_points rs + spec_pressure_points rs + spec_precipitation_points rs"
  unfolding rain_estimate_def spec_humidity_points_def spec_pressure_points_def
    spec_precipitation_points_def spec_pressure_change_def spec_average_humidity_def
    spec_total_precipitation_def Let_def
  by (simp split: option.splits)

lemma rain_estimate_pressure_change:
  "pressure_change (rain_debug_info (rain_estimate s h rs)) = round2 (spec_pressure_change rs)"
  unfolding rain_estimate_def spec_pressure_change_def Let_def
  by (simp split: option.splits)

lemma rain_estimate_records: "records_analyzed (rain_estimate s h rs) = length rs"
  unfolding rain_estimate_def Let_def by (simp split: option.splits prod.splits)

lemma recent_rows_sorted: "sorted (map station_time (recent_rows s t db))"
  by (simp add: recent_rows_def)

lemma recent_rows_mset: "mset (recent_rows s t db) = mset (window_rows s t db)"
  by (simp add: recent_rows_def window_rows_def)

lemma spec_points_nonneg:
  "0 \<le> spec_humidity_points rs" "0 \<le> spec_pressure_points rs" "0 \<le> spec_precipitation_points rs"
  by (simp_all add: spec_humidity_points_def spec_pressure_points_def spec_precipitation_points_def)

lemma spec_points_upper:
  "spec_humidity_points rs \<le> 30" "spec_pressure_points rs \<le> 35" "spec_precipitation_points rs \<le> 25"
  by (simp_all add: spec_humidity_points_def spec_pressure_points_def spec_precipitation_points_def)

lemma rain_example_two:
  assumes "humidity r1 = Some 95" "humidity r2 = Some 95"
    "presure r1 = Some 1010" "presure r2 = Some 1008"
    "sum_list (non_null real_precipitation [r1, r2]) = 0.2"
  shows "rain_probability (rain_estimate s h [r1, r2]) = 90"
proof -
  have "spec_average_humidity [r1, r2] = 95"
    using assms(1,2) by (simp add: spec_average_humidity_def non_null_def List.map_filter_simps)
  then have "spec_humidity_points [r1, r2] = 30" by (simp add: spec_humidity_points_def)
  moreover have "spec_pressure_change [r1, r2] = - 2"
    using assms(3,4) by (simp add: spec_pressure_change_def)
  then have "spec_pressure_points [r1, r2] = 35"
    using assms(3,4) by (simp add: spec_pressure_points_def)
  moreover have "spec_precipitation_points [r1, r2] = 25"
    using assms(5) by (simp add: spec_precipitation_points_def spec_total_precipitation_def)
  ultimately show ?thesis by (simp add: rain_estimate_probability)
qed

text \<open>
  C5. For a window of 1 to 48 hours, the readings considered are those of the source in the
  window, in ascending order of station time. With fewer than two of them the estimate is a
  not-found error; otherwise the score is the sum of the three rules: the average of the
  humidities present (over 90 gives 30, else over 75 gives 15), the pressure of the last
  reading minus that of the first when both are present (under -1.5 gives 35, else under
  -0.5 gives 15; otherwise nothing, with a reported change of 0), and the sum of the real
  precipitation present (over 0.1 gives 25). Two readings with humidities 95 and 95,
  pressures 1010 and 1008 and precipitation summing to 0.2 score 90.
\<close>

theorem rain_probability_rules:
  assumes "1 \<le> hours" "hours \<le> 48"
  shows "(let recent = recent_rows source_name (utcnow - timedelta_hours hours) db
          in sorted (map station_time recent)
           \<and> mset recent = mset (window_rows source_name (utcnow - timedelta_hours hours) db)
           \<and> (length recent < 2 \<longrightarrow>
                get_rain_probability source_name hours utcnow db =
                  Inl (HTTPException 404
                         (No_hay_suficientes_datos_para_prediccion source_name hours)))
           \<and> (2 \<le> length recent \<longrightarrow>
                (\<exists>rep. get_rain_probability source_name hours utcnow db = Inr rep
                   \<and> rain_probability rep =
                       spec_humidity_points recent + spec_pressure_points recent
                         + spec_precipitation_points recent
                   \<and> pressure_change (rain_debug_info rep) = round2 (spec_pressure_change recent)
                   \<and> records_analyzed rep = length recent)))
       \<and> (\<forall>r1 r2. humidity r1 = Some 95 \<and> humidity r2 = Some 95
             \<and> presure r1 = Some 1010 \<and> presure r2 = Some 1008
             \<and> sum_list (non_null real_precipitation [r1, r2]) = 0.2
             \<longrightarrow> rain_probability (rain_estimate source_name hours [r1, r2]) = 90)"
    (is "?general \<and> ?example")
proof
  show ?general
    using assms
    by (simp add: Let_def get_rain_probability_def recent_rows_sorted recent_rows_mset
          rain_estimate_probability rain_estimate_pressure_change rain_estimate_records)
  show ?example
    using rain_example_two by blast
qed

lemma rainy_recent:
  "recent_rows ''s'' (7200000000 - timedelta_hours 6) rainy_station =
     [blank_row\<lparr>id_col := 2, station_time := 0, source := ''s'', humidity := Some 95,
                presure := Some 1010, real_precipitation := Some 0.1\<rparr>,
      blank_row\<lparr>id_col := 1, station_time := 3600000000, source := ''s'', humidity := Some 95,
                presure := Some 1008, real_precipitation := Some 0.1\<rparr>]"
  by (simp add: recent_rows_def rainy_station_def table_of_def timedelta_hours_def blank_row_def)

lemma rainy_value:
  "get_rain_probability ''s'' 6 7200000000 rainy_station =
     Inr \<lparr> rain_source = ''s'', rain_period_hours = 6, rain_probability = 90,
           records_analyzed = 2,
           rain_debug_info = \<lparr> average_humidity = 95, pressure_change = - 2,
                               total_precipitation = 0.2 \<rparr> \<rparr>"
  by (simp add: get_rain_probability_def rainy_recent rain_estimate_def non_null_def
        List.map_filter_simps blank_row_def round2_def Let_def)

text \<open>
  C7. Every score returned lies between 0 and 100: it is the sum of the three rules capped at
  100, and no rule contributes a negative amount.
\<close>

theorem rain_probability_bounded:
  "(get_rain_probability source_name hours utcnow db = Inr rep
      \<longrightarrow> 0 \<le> rain_probability rep \<and> rain_probability rep \<le> 100)
   \<and> rain_probability (rain_estimate source_name hours rs) =
       min (spec_humidity_points rs + spec_pressure_points rs + spec_precipitation_points rs) 100
   \<and> 0 \<le> spec_humidity_points rs \<and> 0 \<le> spec_pressure_points rs
   \<and> 0 \<le> spec_precipitation_points rs"
proof -
  have b: "0 \<le> rain_probability (rain_estimate s h xs) \<and> rain_probability (rain_estimate s h xs) \<le> 100"
    for s h xs
    using spec_points_nonneg[of xs] spec_points_upper[of xs]
    by (simp add: rain_estimate_probability)
  have "get_rain_probability source_name hours utcnow db = Inr rep
      \<longrightarrow> 0 \<le> rain_probability rep \<and> rain_probability rep \<le> 100"
    using b by (auto simp: get_rain_probability_def Let_def split: if_splits)
  moreover have "rain_probability (rain_estimate source_name hours rs) =
       min (spec_humidity_points rs + spec_pressure_points rs + spec_precipitation_points rs) 100"
    using spec_points_upper[of rs] by (simp add: rain_estimate_probability)
  ultimately show ?thesis using spec_points_nonneg[of rs] by blast
qed

theorem rain_probability_rules_witness:
  "(1::int) \<le> 6 \<and> (6::int) \<le> 48
   \<and> length (recent_rows ''s'' (7200000000 - timedelta_hours 6) (table_of [])) < 2
   \<and> get_rain_probability ''s'' 6 7200000000 (table_of []) =
       Inl (HTTPException 404 (No_hay_suficientes_datos_para_prediccion ''s'' 6))
   \<and> 2 \<le> length (recent_rows ''s'' (7200000000 - timedelta_hours 6) rainy_station)
   \<and> get_rain_probability ''s'' 6 7200000000 rainy_station =
       Inr \<lparr> rain_source = ''s'', rain_period_hours = 6, rain_probability = 90,
             records_analyzed = 2,
             rain_debug_info = \<lparr> average_humidity = 95, pressure_change = - 2,
                                 total_precipitation = 0.2 \<rparr> \<rparr>
   \<and> spec_humidity_points (recent_rows ''s'' (7200000000 - timedelta_hours 6) rainy_station)
       + spec_pressure_points (recent_rows ''s'' (7200000000 - timedelta_hours 6) rainy_station)
       + spec_precipitation_points
           (recent_rows ''s'' (7200000000 - timedelta_hours 6) rainy_station) = 90
   \<and> rain_probability (rain_estimate ''s'' 6
         [blank_row\<lparr>humidity := Some 95, presure := Some 1010, real_precipitation := Some 0.2\<rparr>,
          blank_row\<lparr>humidity := Some 95, presure := Some 1008\<rparr>]) = 90"
proof -
  have h: "(1::int) \<le> 6" "(6::int) \<le> 48" by simp_all
  have e: "recent_rows ''s'' (7200000000 - timedelta_hours 6) (table_of []) = []"
    by (simp add: recent_rows_def table_of_def)
  have ex: "humidity (blank_row\<lparr>humidity := Some 95, presure := Some 1010,
                                real_precipitation := Some 0.2\<rparr>) = Some 95
     \<and> humidity (blank_row\<lparr>humidity := Some 95, presure := Some 1008\<rparr>) = Some 95
     \<and> presure (blank_row\<lparr>humidity := Some 95, presure := Some 1010,
                                real_precipitation := Some 0.2\<rparr>) = Some 1010
     \<and> presure (blank_row\<lparr>humidity := Some 95, presure := Some 1008\<rparr>) = Some 1008
     \<and> sum_list (non_null real_precipitation
          [blank_row\<lparr>humidity := Some 95, presure := Some 1010, real_precipitation := Some 0.2\<rparr>,
           blank_row\<lparr>humidity := Some 95, presure := Some 1008\<rparr>]) = 0.2"
    by (simp add: blank_row_def non_null_def List.map_filter_simps)
  from rain_probability_rules[OF h, of "''s''" 7200000000 "table_of []"]
       rain_probability_rules[OF h, of "''s''" 7200000000 rainy_station]
       ex
  show ?thesis
    by (simp add: Let_def e rainy_recent rainy_value)
qed

theorem rain_probability_bounded_witness:
  "get_rain_probability ''s'' 6 7200000000 rainy_station =
       Inr \<lparr> rain_source = ''s'', rain_period_hours = 6, rain_probability = 90,
             records_analyzed = 2,
             rain_debug_info = \<lparr> average_humidity = 95, pressure_change = - 2,
                                 total_precipitation = 0.2 \<rparr> \<rparr>
   \<and> (0::int) \<le> 90 \<and> (90::int) \<le> 100"
  using rain_probability_bounded[of "''s''" 6 7200000000 rainy_station
      "\<lparr> rain_source = ''s'', rain_period_hours = 6, rain_probability = 90,
             records_analyzed = 2,
             rain_debug_info = \<lparr> average_humidity = 95, pressure_change = - 2,
                                 total_precipitation = 0.2 \<rparr> \<rparr>" "[]"]
  by (simp add: rainy_value)

section \<open>Listing\<close>

lemma query_matches:
  "(let query0 = rows db;
        query1 = (if truthy_str source_q
                       then filter (\<lambda>r. source r = the source_q) query0 else query0);
        query2 = (if truthy_datetime start_date
                       then filter (\<lambda>r. the start_date \<le> station_time r) query1 else query1)
    in (if truthy_datetime end_date
                       then filter (\<lambda>r. station_time r \<le> the end_date) query2 else query2))
   = filter (matches_filters source_q start_date end_date) (rows db)"
  by (cases source_q; cases start_date; cases end_date)
     (auto simp: truthy_str_def truthy_datetime_def matches_filters_def Let_def intro: filter_cong)

lemma newest_first_sort:
  "newest_first (sort_key (\<lambda>r. - station_time r) rs)"
proof -
  have "sorted (map (\<lambda>r. - station_time r) (sort_key (\<lambda>r. - station_time r) rs))"
    by (rule sorted_sort_key)
  then show ?thesis by (simp add: newest_first_def sorted_map)
qed

lemma newest_first_page: "newest_first rs \<Longrightarrow> newest_first (take n (drop k rs))"
  by (simp add: newest_first_def sorted_wrt_take sorted_wrt_drop)

lemma get_all_eq:
  assumes "0 \<le> skip" "1 \<le> limit" "limit \<le> 1000"
  shows "get_all_weather_data skip limit source_q start_date end_date db =
     Inr (take (nat limit) (drop (nat skip)
            (sort_key (\<lambda>r. - station_time r)
               (filter (matches_filters source_q start_date end_date) (rows db)))))"
  using assms query_matches[of db source_q start_date end_date]
  by (simp add: get_all_weather_data_def Let_def)

text \<open>
  C6, amended. For every list query with skip at least 0 and limit from 1 to 1000, the
  result is a page, skip rows in and limit rows long at most, of the rows that pass all
  supplied filters together (a source that is not empty, the start and the end of the range),
  ordered by station time descending. So the result is ordered, never longer than limit,
  empty when skip reaches the number of rows that pass, and empty when the start of the
  range is after its end.
\<close>

theorem list_readings_page:
  assumes "0 \<le> skip" "1 \<le> limit" "limit \<le> 1000"
  shows "\<exists>data ordered.
      get_all_weather_data skip limit source_q start_date end_date db = Inr data
    \<and> mset ordered = mset (filter (matches_filters source_q start_date end_date) (rows db))
    \<and> newest_first ordered
    \<and> data = take (nat limit) (drop (nat skip) ordered)
    \<and> newest_first data
    \<and> int (length data) \<le> limit
    \<and> (int (length (filter (matches_filters source_q start_date end_date) (rows db))) \<le> skip
          \<longrightarrow> data = [])
    \<and> (\<forall>s e. start_date = Some s \<and> end_date = Some e \<and> e < s \<longrightarrow> data = [])"
proof -
  let ?sel = "filter (matches_filters source_q start_date end_date) (rows db)"
  let ?ord = "sort_key (\<lambda>r. - station_time r) ?sel"
  let ?data = "take (nat limit) (drop (nat skip) ?ord)"
  have 1: "get_all_weather_data skip limit source_q start_date end_date db = Inr ?data"
    using assms by (rule get_all_eq)
  have 2: "mset ?ord = mset ?sel" by simp
  have 3: "newest_first ?ord" by (rule newest_first_sort)
  have 4: "newest_first ?data" using 3 by (rule newest_first_page)
  have 5: "int (length ?data) \<le> limit" using assms by simp
  have 6: "int (length ?sel) \<le> skip \<longrightarrow> ?data = []"
    using assms by auto
  have 7: "\<forall>s e. start_date = Some s \<and> end_date = Some e \<and> e < s \<longrightarrow> ?data = []"
  proof (intro allI impI)
    fix s e assume a: "start_date = Some s \<and> end_date = Some e \<and> e < s"
    then have "?sel = []"
      by (auto simp: matches_filters_def filter_empty_conv)
    then show "?data = []" by simp
  qed
  from 1 2 3 4 5 6 7 show ?thesis by blast
qed

text \<open>
  C6 as stated fails: with the empty string supplied as source, the result holds a row of
  source \<open>a\<close>, which the supplied source filter excludes.
\<close>

theorem empty_source_filter_not_applied:
  "get_all_weather_data 0 100 (Some []) None None
     (table_of [blank_row\<lparr>id_col := 1, source := ''a''\<rparr>])
   = Inr [blank_row\<lparr>id_col := 1, source := ''a''\<rparr>]
   \<and> \<not> satisfies_supplied (Some []) None None (blank_row\<lparr>id_col := 1, source := ''a''\<rparr>)"
  by (simp add: get_all_weather_data_def truthy_str_def truthy_datetime_def table_of_def
        satisfies_supplied_def)


lemma get_all_unpaged:
  assumes "1 \<le> limit" "limit \<le> 1000" "int (length (rows db)) \<le> limit"
  shows "get_all_weather_data 0 limit source_q None None db =
     Inr (sort_key (\<lambda>r. - station_time r)
            (filter (matches_filters source_q None None) (rows db)))"
proof -
  have "length (filter (matches_filters source_q None None) (rows db)) \<le> length (rows db)"
    by (rule length_filter_le)
  with assms(3) have "length (filter (matches_filters source_q None None) (rows db)) \<le> nat limit"
    by linarith
  then show ?thesis
    using get_all_eq[of 0 limit source_q None None db] assms(1,2) by simp
qed

text \<open>
  C10. In a list query an empty string as source is treated as no source filter: the result
  is that of the query without a source, namely the page of all rows of every source that
  pass the time range, newest first. In particular, when the page holds the whole table, the
  query with the empty source returns every row of the table; and whatever source is
  supplied, a result that holds a row of empty source holds every row of the table, so the
  rows of empty source cannot be selected by the source filter.
\<close>

theorem empty_source_is_no_filter:
  assumes "0 \<le> skip" "1 \<le> limit" "limit \<le> 1000"
  shows "get_all_weather_data skip limit (Some []) start_date end_date db
           = get_all_weather_data skip limit None start_date end_date db
       \<and> get_all_weather_data skip limit (Some []) start_date end_date db
           = Inr (take (nat limit) (drop (nat skip)
                    (sort_key (\<lambda>r. - station_time r)
                       (filter (\<lambda>r. (case start_date of None \<Rightarrow> True
                                        | Some t \<Rightarrow> t \<le> station_time r)
                                   \<and> (case end_date of None \<Rightarrow> True
                                        | Some t \<Rightarrow> station_time r \<le> t))
                          (rows db)))))
       \<and> (int (length (rows db)) \<le> limit \<longrightarrow>
            (\<exists>data. get_all_weather_data 0 limit (Some []) None None db = Inr data
                     \<and> mset data = mset (rows db)))
       \<and> (\<forall>source_q data r.
             int (length (rows db)) \<le> limit
             \<and> get_all_weather_data 0 limit source_q None None db = Inr data
             \<and> r \<in> set data \<and> source r = []
             \<longrightarrow> mset data = mset (rows db))"
proof (intro conjI)
  show "get_all_weather_data skip limit (Some []) start_date end_date db
           = get_all_weather_data skip limit None start_date end_date db"
    by (simp add: get_all_weather_data_def truthy_str_def)
  have m: "matches_filters (Some []) start_date end_date
           = (\<lambda>r. (case start_date of None \<Rightarrow> True | Some t \<Rightarrow> t \<le> station_time r)
                 \<and> (case end_date of None \<Rightarrow> True | Some t \<Rightarrow> station_time r \<le> t))"
    by (simp add: matches_filters_def fun_eq_iff)
  show "get_all_weather_data skip limit (Some []) start_date end_date db
           = Inr (take (nat limit) (drop (nat skip)
                    (sort_key (\<lambda>r. - station_time r)
                       (filter (\<lambda>r. (case start_date of None \<Rightarrow> True
                                        | Some t \<Rightarrow> t \<le> station_time r)
                                   \<and> (case end_date of None \<Rightarrow> True
                                        | Some t \<Rightarrow> station_time r \<le> t))
                          (rows db)))))"
    using get_all_eq[OF assms, of "Some []" start_date end_date db] by (simp only: m)
  show "int (length (rows db)) \<le> limit \<longrightarrow>
            (\<exists>data. get_all_weather_data 0 limit (Some []) None None db = Inr data
                     \<and> mset data = mset (rows db))"
  proof
    assume "int (length (rows db)) \<le> limit"
    then have "get_all_weather_data 0 limit (Some []) None None db =
        Inr (sort_key (\<lambda>r. - station_time r)
               (filter (matches_filters (Some []) None None) (rows db)))"
      using assms(2,3) by (rule get_all_unpaged[rotated 2])
    then show "\<exists>data. get_all_weather_data 0 limit (Some []) None None db = Inr data
                     \<and> mset data = mset (rows db)"
      by (simp add: matches_filters_def)
  qed
  show "\<forall>source_q data r.
             int (length (rows db)) \<le> limit
             \<and> get_all_weather_data 0 limit source_q None None db = Inr data
             \<and> r \<in> set data \<and> source r = []
             \<longrightarrow> mset data = mset (rows db)"
  proof (intro allI impI)
    fix source_q data r
    assume a: "int (length (rows db)) \<le> limit
             \<and> get_all_weather_data 0 limit source_q None None db = Inr data
             \<and> r \<in> set data \<and> source r = []"
    then have len: "int (length (rows db)) \<le> limit" by simp
    have d: "data = sort_key (\<lambda>r. - station_time r)
               (filter (matches_filters source_q None None) (rows db))"
      using get_all_unpaged[OF assms(2,3) len, of source_q] a by simp
    with a have "matches_filters source_q None None r" by simp
    with a have "matches_filters source_q None None = (\<lambda>r. True)"
      by (auto simp: matches_filters_def fun_eq_iff split: option.splits)
    with d show "mset data = mset (rows db)" by simp
  qed
qed

theorem empty_source_is_no_filter_witness:
  "(0::int) \<le> 0 \<and> (1::int) \<le> 100 \<and> (100::int) \<le> 1000
   \<and> int (length (rows mixed_sources)) \<le> 100
   \<and> get_all_weather_data 0 100 (Some []) None None mixed_sources =
       Inr [blank_row\<lparr>id_col := 3, station_time := 300, source := ''b''\<rparr>,
            blank_row\<lparr>id_col := 2, station_time := 200, source := ''a''\<rparr>,
            blank_row\<lparr>id_col := 1, station_time := 100, source := []\<rparr>]
   \<and> get_all_weather_data 0 100 None None None mixed_sources =
       get_all_weather_data 0 100 (Some []) None None mixed_sources
   \<and> mset [blank_row\<lparr>id_col := 3, station_time := 300, source := ''b''\<rparr>,
            blank_row\<lparr>id_col := 2, station_time := 200, source := ''a''\<rparr>,
            blank_row\<lparr>id_col := 1, station_time := 100, source := []\<rparr>]
       = mset (rows mixed_sources)"
proof -
  have h: "(0::int) \<le> 0" "(1::int) \<le> 100" "(100::int) \<le> 1000" by simp_all
  have n: "int (length (rows mixed_sources)) \<le> 100"
    by (simp add: mixed_sources_def table_of_def)
  have v: "get_all_weather_data 0 100 (Some []) None None mixed_sources =
       Inr [blank_row\<lparr>id_col := 3, station_time := 300, source := ''b''\<rparr>,
            blank_row\<lparr>id_col := 2, station_time := 200, source := ''a''\<rparr>,
            blank_row\<lparr>id_col := 1, station_time := 100, source := []\<rparr>]"
    by (simp add: get_all_weather_data_def truthy_str_def truthy_datetime_def
          mixed_sources_def table_of_def blank_row_def)
  note T = empty_source_is_no_filter[OF h, of None None mixed_sources]
  from T have "get_all_weather_data 0 100 (Some []) None None mixed_sources =
       get_all_weather_data 0 100 None None None mixed_sources"
    by (rule conjunct1)
  then have e: "get_all_weather_data 0 100 None None None mixed_sources =
       get_all_weather_data 0 100 (Some []) None None mixed_sources"
    by (rule sym)
  from T have "int (length (rows mixed_sources)) \<le> 100 \<longrightarrow>
      (\<exists>data. get_all_weather_data 0 100 (Some []) None None mixed_sources = Inr data
              \<and> mset data = mset (rows mixed_sources))"
    by (rule conjunct2[THEN conjunct2, THEN conjunct1])
  with n obtain data where
    d: "get_all_weather_data 0 100 (Some []) None None mixed_sources = Inr data"
    and m: "mset data = mset (rows mixed_sources)"
    by blast
  from d v have "data = [blank_row\<lparr>id_col := 3, station_time := 300, source := ''b''\<rparr>,
            blank_row\<lparr>id_col := 2, station_time := 200, source := ''a''\<rparr>,
            blank_row\<lparr>id_col := 1, station_time := 100, source := []\<rparr>]"
    by simp
  with m have m': "mset [blank_row\<lparr>id_col := 3, station_time := 300, source := ''b''\<rparr>,
            blank_row\<lparr>id_col := 2, station_time := 200, source := ''a''\<rparr>,
            blank_row\<lparr>id_col := 1, station_time := 100, source := []\<rparr>]
       = mset (rows mixed_sources)"
    by (simp only:)
  show ?thesis
    by (intro conjI) (rule h n v e m')+
qed

theorem list_readings_page_witness:
  "(0::int) \<le> 1 \<and> (1::int) \<le> 2 \<and> (2::int) \<le> 1000
   \<and> get_all_weather_data 1 2 (Some ''a'') (Some 50) (Some 350) two_stations
       = Inr [blank_row\<lparr>id_col := 3, station_time := 100, source := ''a''\<rparr>]
   \<and> int (length (filter (matches_filters None None None) (rows two_stations))) \<le> 5
   \<and> get_all_weather_data 5 2 None None None two_stations = Inr []
   \<and> get_all_weather_data 0 2 None (Some 350) (Some 50) two_stations = Inr []"
proof -
  have h: "(0::int) \<le> 1" "(1::int) \<le> 2" "(2::int) \<le> 1000" "(0::int) \<le> 5" "(0::int) \<le> 0"
    by simp_all
  have a: "get_all_weather_data 1 2 (Some ''a'') (Some 50) (Some 350) two_stations
       = Inr [blank_row\<lparr>id_col := 3, station_time := 100, source := ''a''\<rparr>]"
    by (simp add: get_all_weather_data_def truthy_str_def truthy_datetime_def two_stations_def
          table_of_def blank_row_def)
  have n: "int (length (filter (matches_filters None None None) (rows two_stations))) \<le> 5"
    by (simp add: matches_filters_def two_stations_def table_of_def)
  from list_readings_page[OF h(4) h(2) h(3), of None None None two_stations] n
  have b: "get_all_weather_data 5 2 None None None two_stations = Inr []"
    by auto
  from list_readings_page[OF h(5) h(2) h(3), of None "Some 350" "Some 50" two_stations]
  have c: "get_all_weather_data 0 2 None (Some 350) (Some 50) two_stations = Inr []"
    by auto
  from h a n b c show ?thesis by simp
qed

section \<open>Marking as processed\<close>

lemma find_map_id:
  assumes "\<And>r. id_col (g r) = id_col r"
  shows "find (\<lambda>r. id_col r = i) (map g rs) = map_option g (find (\<lambda>r. id_col r = i) rs)"
  using assms by (induction rs) simp_all

lemma set_processed_id: "id_col (set_processed now r) = id_col r"
  by (simp add: set_processed_def)

lemma set_processed_processed: "processed (set_processed now r) = 1"
  by (simp add: set_processed_def)

lemma set_processed_again: "set_processed now2 (set_processed now1 r) = set_processed now1 r"
  by (simp add: set_processed_def)

lemma mark_rows_id:
  "id_col (if id_col r = i then set_processed now r else r) = id_col r"
  by (simp add: set_processed_id)

lemma mark_present:
  assumes "find (\<lambda>r. id_col r = data_id) (rows db) = Some r"
  shows "mark_as_processed data_id now db =
     (db\<lparr>rows := map (\<lambda>r. if id_col r = data_id then set_processed now r else r) (rows db)\<rparr>,
      Inr \<lparr> success = True, message = Dato_marcado_como_procesado, id_resp = Some data_id \<rparr>)"
  using assms by (simp add: mark_as_processed_def)

lemma find_after_mark:
  assumes "find (\<lambda>r. id_col r = data_id) (rows db) = Some r"
  shows "find (\<lambda>r. id_col r = data_id)
           (map (\<lambda>r. if id_col r = data_id then set_processed now r else r) (rows db))
         = Some (set_processed now r)"
proof -
  have "id_col r = data_id" using assms by (auto simp: find_Some_iff)
  moreover have "find (\<lambda>r. id_col r = data_id)
           (map (\<lambda>r. if id_col r = data_id then set_processed now r else r) (rows db))
      = map_option (\<lambda>r. if id_col r = data_id then set_processed now r else r)
           (find (\<lambda>r. id_col r = data_id) (rows db))"
    by (rule find_map_id) (simp add: set_processed_id)
  ultimately show ?thesis using assms by simp
qed

text \<open>
  C9. Marking is idempotent: for an id present in the table, a first call succeeds and a
  second call on the record, now already processed, succeeds with the same acknowledgement;
  after either call the record's \<open>processed\<close> is 1, and the second call changes no
  \<open>processed\<close> value of the table.
\<close>

theorem mark_processed_idempotent:
  assumes "get_weather_data_by_id data_id db = Inr r"
  shows "\<exists>db1 db2 ack r1 r2.
           mark_as_processed data_id now1 db = (db1, Inr ack)
         \<and> mark_as_processed data_id now2 db1 = (db2, Inr ack)
         \<and> success ack \<and> id_resp ack = Some data_id
         \<and> get_weather_data_by_id data_id db1 = Inr r1 \<and> processed r1 = 1
         \<and> get_weather_data_by_id data_id db2 = Inr r2 \<and> processed r2 = 1
         \<and> map processed (rows db2) = map processed (rows db1)"
proof -
  let ?f = "\<lambda>now r. if id_col r = data_id then set_processed now r else r"
  let ?ack = "\<lparr> success = True, message = Dato_marcado_como_procesado,
                 id_resp = Some data_id \<rparr>"
  let ?db1 = "db\<lparr>rows := map (?f now1) (rows db)\<rparr>"
  let ?db2 = "?db1\<lparr>rows := map (?f now2) (rows ?db1)\<rparr>"
  from assms have f0: "find (\<lambda>r. id_col r = data_id) (rows db) = Some r"
    by (simp add: get_weather_data_by_id_def split: option.splits)
  have m1: "mark_as_processed data_id now1 db = (?db1, Inr ?ack)"
    using f0 by (rule mark_present)
  have f1: "find (\<lambda>r. id_col r = data_id) (rows ?db1) = Some (set_processed now1 r)"
    using find_after_mark[OF f0, of now1] by simp
  have m2: "mark_as_processed data_id now2 ?db1 = (?db2, Inr ?ack)"
    using f1 by (rule mark_present)
  have f2: "find (\<lambda>r. id_col r = data_id) (rows ?db2)
              = Some (set_processed now2 (set_processed now1 r))"
    using find_after_mark[OF f1, of now2] by simp
  have g1: "get_weather_data_by_id data_id ?db1 = Inr (set_processed now1 r)"
    using f1 by (simp add: get_weather_data_by_id_def)
  have g2: "get_weather_data_by_id data_id ?db2 = Inr (set_processed now2 (set_processed now1 r))"
    using f2 by (simp add: get_weather_data_by_id_def)
  have same: "map processed (rows ?db2) = map processed (rows ?db1)"
    by (simp add: set_processed_def)
  from m1 m2 g1 g2 same show ?thesis
    by (intro exI[of _ ?db1] exI[of _ ?db2] exI[of _ ?ack]
          exI[of _ "set_processed now1 r"]
          exI[of _ "set_processed now2 (set_processed now1 r)"])
       (simp add: set_processed_processed)
qed

theorem mark_processed_idempotent_witness:
  "get_weather_data_by_id 3 two_stations
     = Inr (blank_row\<lparr>id_col := 3, station_time := 100, source := ''a''\<rparr>)
   \<and> (\<exists>db1 db2 ack r1 r2.
           mark_as_processed 3 10 two_stations = (db1, Inr ack)
         \<and> mark_as_processed 3 20 db1 = (db2, Inr ack)
         \<and> success ack \<and> id_resp ack = Some 3
         \<and> get_weather_data_by_id 3 db1 = Inr r1 \<and> processed r1 = 1
         \<and> get_weather_data_by_id 3 db2 = Inr r2 \<and> processed r2 = 1
         \<and> map processed (rows db2) = map processed (rows db1))
   \<and> map processed
         (rows (fst (mark_as_processed 3 20 (fst (mark_as_processed 3 10 two_stations)))))
       = [0, 0, 1, 0]"
proof -
  have h: "get_weather_data_by_id 3 two_stations
     = Inr (blank_row\<lparr>id_col := 3, station_time := 100, source := ''a''\<rparr>)"
    by (simp add: get_weather_data_by_id_def two_stations_def table_of_def blank_row_def)
  have v: "map processed
         (rows (fst (mark_as_processed 3 20 (fst (mark_as_processed 3 10 two_stations)))))
       = [0, 0, 1, 0]"
    by (simp add: mark_as_processed_def set_processed_def two_stations_def table_of_def
          blank_row_def)
  from mark_processed_idempotent[OF h, of 10 20] h v show ?thesis by blast
qed

section \<open>Statistics\<close>

text \<open>What holds of the statistics: not found exactly for an empty window, and an aggregate
  reported as null exactly when it is NULL or equal to 0.\<close>

lemma statistics_not_found_iff:
  assumes "1 \<le> hours" "hours \<le> 720"
  shows "get_statistics_by_source source_name hours utcnow db
           = Inl (HTTPException 404 (No_hay_datos_suficientes source_name hours))
         \<longleftrightarrow> window_rows source_name (utcnow - timedelta_hours hours) db = []"
  using assms
  by (simp add: get_statistics_by_source_def aggregate_query_def Let_def)

lemma round_if_truthy_None_iff:
  "round_if_truthy v = None \<longleftrightarrow> v = None \<or> v = Some 0"
  by (cases v) (simp_all add: round_if_truthy_def truthy_float_def)


text \<open>
  C2. Claim: with readings in the window, an aggregate is null if and only if no reading of
  the window has a value for the field. The handler does not do so: for a station whose only
  reading in the window has a temperature of 0, the temperature average, maximum and minimum
  are all reported as null, although the window holds a temperature.
\<close>

theorem statistics_zero_reported_null:
  "get_statistics_by_source ''s'' 24 7200000000 freezing_station =
     Inr \<lparr> stats_source = ''s'', stats_period_hours = 24,
           temperature_average = None, temperature_maximum = None,
           temperature_minimum = None, humidity_average = Some 50,
           wind_speed_average = None, wind_speed_maximum = None,
           report_total_records = 1 \<rparr>
   \<and> non_null temperature (window_rows ''s'' (7200000000 - timedelta_hours 24) freezing_station)
       = [0]"
  by (simp add: get_statistics_by_source_def window_rows_def aggregate_query_def
        freezing_station_def table_of_def timedelta_hours_def blank_row_def non_null_def
        List.map_filter_simps sql_avg_def sql_max_def sql_min_def round_if_truthy_def
        truthy_float_def round2_def Let_def)

end
